theory Spec2Isabelle
  imports Main "HOL-Library.Word" "HOL-Library.List_Lexorder" "HOL-Library.Char_ord"
begin

section \<open>Data model of pkg/virtualrouter/routes\_manager.go\<close>

text \<open>
  The Go structs are records. A pointer that the source tests against nil, or reads
  through \<^verbatim>\<open>aws.StringValue\<close> / \<^verbatim>\<open>aws.Int64Value\<close>, is an option; a pointer that the
  source dereferences without a test (\<^verbatim>\<open>sdkRouteRef.RouteName\<close>, \<^verbatim>\<open>sdkVR.Spec\<close>,
  \<^verbatim>\<open>sdkListener.PortMapping\<close>, \<^verbatim>\<open>sdkRoute.Metadata\<close>) is modelled by its pointee, so the
  model covers the inputs on which those dereferences do not panic. Fields of the SDK
  structs that the file never reads are left out. The desired route is a record scheme:
  whatever else a route carries (action, retry policy, timeout, priority) lives in its
  extension and reaches the spec builder untouched.
\<close>

type_synonym int64 = "64 word"

text \<open>\<^verbatim>\<open>appmesh.PortProtocol\<close> is a string type (the source converts a string to it).\<close>

type_synonym PortProtocol = string

record TCPRouteMatch =
  Port :: "int64 option"

record GRPCRouteMatch =
  Port :: "int64 option"

record HTTPRouteMatch =
  Port :: "int64 option"

record TCPRoute =
  Match :: "TCPRouteMatch option"

record GRPCRoute =
  Match :: GRPCRouteMatch

record HTTPRoute =
  Match :: HTTPRouteMatch

record Route =
  Name :: string
  GRPCRoute :: "GRPCRoute option"
  HTTPRoute :: "HTTPRoute option"
  HTTP2Route :: "HTTPRoute option"
  TCPRoute :: "TCPRoute option"

record RouteRef =
  MeshName :: "string option"
  MeshOwner :: "string option"
  RouteName :: "string option"
  VirtualRouterName :: "string option"

record PortMapping =
  Port :: "int64 option"
  Protocol :: "string option"

record VirtualRouterListener =
  PortMapping :: PortMapping

record SDKVirtualRouterSpec =
  Listeners :: "VirtualRouterListener list"

record VirtualRouterData =
  Spec :: SDKVirtualRouterSpec

text \<open>
  The pair type of the matcher. Its fields are \<^verbatim>\<open>route\<close> and \<^verbatim>\<open>sdkRouteRef\<close> in the
  source; they carry a prefix here because the loops use the same names for variables.
\<close>

record 'a routeAndSDKRouteRef =
  pair_route :: "'a Route_scheme"
  pair_sdkRouteRef :: RouteRef

text \<open>
  Modelled from the spec: the four \<^verbatim>\<open>appmesh.PortProtocol\<close> constants are declared in
  apis/appmesh/v1beta2, outside the file under study. They are the protocol tags TCP,
  HTTP, HTTP2 and GRPC of a listener entry, one per match variant, written as the
  lower-case strings of the remote API.
\<close>

definition PortProtocolTCP :: PortProtocol where
  "PortProtocolTCP = ''tcp''"

definition PortProtocolHTTP :: PortProtocol where
  "PortProtocolHTTP = ''http''"

definition PortProtocolHTTP2 :: PortProtocol where
  "PortProtocolHTTP2 = ''http2''"

definition PortProtocolGRPC :: PortProtocol where
  "PortProtocolGRPC = ''grpc''"

subsection \<open>Helpers of the AWS SDK and of apimachinery's string sets\<close>

definition StringValue :: "string option \<Rightarrow> string" where
  "StringValue p = (case p of None \<Rightarrow> [] | Some s \<Rightarrow> s)"

definition Int64Value :: "int64 option \<Rightarrow> int64" where
  "Int64Value p = (case p of None \<Rightarrow> 0 | Some v \<Rightarrow> v)"

text \<open>\<^verbatim>\<open>sets.StringKeySet\<close>: the keys of a map. \<^verbatim>\<open>List\<close>: the members in sorted order.\<close>

definition StringKeySet :: "(string \<rightharpoonup> 'v) \<Rightarrow> string set" where
  "StringKeySet m = dom m"

definition List_sorted :: "string set \<Rightarrow> string list" where
  "List_sorted s = sorted_list_of_set s"

text \<open>
  Indexing a Go map at each name of a list. Every list the source walks is drawn from
  the key set of the map it indexes (lemmas \<open>index_all_keys\<close> below), so the zero
  value of a missing key never arises and no entry is dropped here.
\<close>

definition index_all :: "(string \<rightharpoonup> 'v) \<Rightarrow> string list \<Rightarrow> 'v list" where
  "index_all m names = List.map_filter m names"

text \<open>Indexing the listener map: a missing port gives the zero value, the empty string.\<close>

definition listener_at :: "(int64 \<rightharpoonup> PortProtocol) \<Rightarrow> int64 \<Rightarrow> PortProtocol" where
  "listener_at m p = (case m p of None \<Rightarrow> [] | Some v \<Rightarrow> v)"

subsection \<open>The name maps built by the first loops of both functions\<close>

definition build_routeByName :: "'a Route_scheme list \<Rightarrow> (string \<rightharpoonup> 'a Route_scheme)" where
  "build_routeByName routes = fold (\<lambda>route m. m(Name route \<mapsto> route)) routes Map.empty"

definition build_sdkRouteRefByName :: "RouteRef list \<Rightarrow> (string \<rightharpoonup> RouteRef)" where
  "build_sdkRouteRefByName sdkRouteRefs =
     fold (\<lambda>sdkRouteRef m. m(StringValue (RouteRef.RouteName sdkRouteRef) \<mapsto> sdkRouteRef))
       sdkRouteRefs Map.empty"

definition build_sdkListenerByPort :: "VirtualRouterListener list \<Rightarrow> (int64 \<rightharpoonup> PortProtocol)" where
  "build_sdkListenerByPort listeners =
     fold (\<lambda>sdkListener m.
             m(Int64Value (PortMapping.Port (PortMapping sdkListener))
                 \<mapsto> StringValue (Protocol (PortMapping sdkListener))))
       listeners Map.empty"

subsection \<open>matchRoutesAgainstSDKRouteRefs\<close>

definition matchRoutesAgainstSDKRouteRefs ::
  "'a Route_scheme list \<Rightarrow> RouteRef list
     \<Rightarrow> 'a routeAndSDKRouteRef list \<times> 'a Route_scheme list \<times> RouteRef list" where
  "matchRoutesAgainstSDKRouteRefs routes sdkRouteRefs =
     (let routeByName = build_routeByName routes;
          sdkRouteRefByName = build_sdkRouteRefByName sdkRouteRefs;
          routeNameSet = StringKeySet routeByName;
          sdkRouteRefNameSet = StringKeySet sdkRouteRefByName;
          matchedNameSet = routeNameSet \<inter> sdkRouteRefNameSet;
          unmatchedRouteNameSet = routeNameSet - sdkRouteRefNameSet;
          unmatchedSDKRouteRefNameSet = sdkRouteRefNameSet - routeNameSet;
          matchedRouteAndSDKRouteRef =
            List.map_filter
              (\<lambda>name. case routeByName name of None \<Rightarrow> None
                 | Some r \<Rightarrow> (case sdkRouteRefByName name of None \<Rightarrow> None
                     | Some ref \<Rightarrow> Some \<lparr>pair_route = r, pair_sdkRouteRef = ref\<rparr>))
              (List_sorted matchedNameSet);
          unmatchedRoutes = index_all routeByName (List_sorted unmatchedRouteNameSet);
          unmatchedSDKRouteRefs =
            index_all sdkRouteRefByName (List_sorted unmatchedSDKRouteRefNameSet)
      in (matchedRouteAndSDKRouteRef, unmatchedRoutes, unmatchedSDKRouteRefs))"

subsection \<open>taintedSDKRouteRefs\<close>

text \<open>The four conditions of the if / else-if chain, in the order of the source.\<close>

definition tcp_mismatch :: "'a Route_scheme \<Rightarrow> (int64 \<rightharpoonup> PortProtocol) \<Rightarrow> bool" where
  "tcp_mismatch route sdkListenerByPort =
     (case TCPRoute route of None \<Rightarrow> False
      | Some t \<Rightarrow> (case TCPRoute.Match t of None \<Rightarrow> False
          | Some mt \<Rightarrow> (case TCPRouteMatch.Port mt of None \<Rightarrow> False
              | Some _ \<Rightarrow> listener_at sdkListenerByPort (Int64Value (TCPRouteMatch.Port mt))
                           \<noteq> PortProtocolTCP)))"

definition grpc_mismatch :: "'a Route_scheme \<Rightarrow> (int64 \<rightharpoonup> PortProtocol) \<Rightarrow> bool" where
  "grpc_mismatch route sdkListenerByPort =
     (case GRPCRoute route of None \<Rightarrow> False
      | Some g \<Rightarrow> (case GRPCRouteMatch.Port (GRPCRoute.Match g) of None \<Rightarrow> False
          | Some _ \<Rightarrow> listener_at sdkListenerByPort
                        (Int64Value (GRPCRouteMatch.Port (GRPCRoute.Match g)))
                       \<noteq> PortProtocolGRPC))"

definition http2_mismatch :: "'a Route_scheme \<Rightarrow> (int64 \<rightharpoonup> PortProtocol) \<Rightarrow> bool" where
  "http2_mismatch route sdkListenerByPort =
     (case HTTP2Route route of None \<Rightarrow> False
      | Some h \<Rightarrow> (case HTTPRouteMatch.Port (HTTPRoute.Match h) of None \<Rightarrow> False
          | Some _ \<Rightarrow> listener_at sdkListenerByPort
                        (Int64Value (HTTPRouteMatch.Port (HTTPRoute.Match h)))
                       \<noteq> PortProtocolHTTP2))"

definition http_mismatch :: "'a Route_scheme \<Rightarrow> (int64 \<rightharpoonup> PortProtocol) \<Rightarrow> bool" where
  "http_mismatch route sdkListenerByPort =
     (case HTTPRoute route of None \<Rightarrow> False
      | Some h \<Rightarrow> (case HTTPRouteMatch.Port (HTTPRoute.Match h) of None \<Rightarrow> False
          | Some _ \<Rightarrow> listener_at sdkListenerByPort
                        (Int64Value (HTTPRouteMatch.Port (HTTPRoute.Match h)))
                       \<noteq> PortProtocolHTTP))"

text \<open>One pass of the loop over the matched names: the body inserts \<^verbatim>\<open>route.Name\<close>.\<close>

definition taint_step ::
  "(string \<rightharpoonup> 'a Route_scheme) \<Rightarrow> (int64 \<rightharpoonup> PortProtocol) \<Rightarrow> string \<Rightarrow> string set \<Rightarrow> string set" where
  "taint_step routeByName sdkListenerByPort name unmatchedSDKRouteRefNameSet =
     (case routeByName name of None \<Rightarrow> unmatchedSDKRouteRefNameSet
      | Some route \<Rightarrow>
          if tcp_mismatch route sdkListenerByPort
            then insert (Name route) unmatchedSDKRouteRefNameSet
          else if grpc_mismatch route sdkListenerByPort
            then insert (Name route) unmatchedSDKRouteRefNameSet
          else if http2_mismatch route sdkListenerByPort
            then insert (Name route) unmatchedSDKRouteRefNameSet
          else if http_mismatch route sdkListenerByPort
            then insert (Name route) unmatchedSDKRouteRefNameSet
          else unmatchedSDKRouteRefNameSet)"

definition taintedSDKRouteRefs ::
  "'a Route_scheme list \<Rightarrow> VirtualRouterData \<Rightarrow> RouteRef list \<Rightarrow> RouteRef list" where
  "taintedSDKRouteRefs routes sdkVR sdkRouteRefs =
     (let routeByName = build_routeByName routes;
          sdkRouteRefByName = build_sdkRouteRefByName sdkRouteRefs;
          sdkListenerByPort = build_sdkListenerByPort (Listeners (VirtualRouterData.Spec sdkVR));
          routeNameSet = StringKeySet routeByName;
          sdkRouteRefNameSet = StringKeySet sdkRouteRefByName;
          matchedNameSet = routeNameSet \<inter> sdkRouteRefNameSet;
          unmatchedSDKRouteRefNameSet = sdkRouteRefNameSet - routeNameSet;
          unmatchedSDKRouteRefNameSet' =
            fold (taint_step routeByName sdkListenerByPort) (List_sorted matchedNameSet)
              unmatchedSDKRouteRefNameSet
      in index_all sdkRouteRefByName (List_sorted unmatchedSDKRouteRefNameSet'))"

text \<open>The name a route ref is keyed by.\<close>

definition ref_name :: "RouteRef \<Rightarrow> string" where
  "ref_name sdkRouteRef = StringValue (RouteRef.RouteName sdkRouteRef)"

text \<open>
  The match variant of a route, read as the data model's one-of: the protocol the
  variant implies and the port it declares, when exactly one of the four variant
  pointers is set. This is vocabulary for the statements below; the source never
  computes it.
\<close>

definition route_variant :: "'a Route_scheme \<Rightarrow> (PortProtocol \<times> int64 option) option" where
  "route_variant route =
     (case (TCPRoute route, GRPCRoute route, HTTP2Route route, HTTPRoute route) of
        (Some t, None, None, None) \<Rightarrow>
          Some (PortProtocolTCP,
                case TCPRoute.Match t of None \<Rightarrow> None | Some mt \<Rightarrow> TCPRouteMatch.Port mt)
      | (None, Some g, None, None) \<Rightarrow>
          Some (PortProtocolGRPC, GRPCRouteMatch.Port (GRPCRoute.Match g))
      | (None, None, Some h, None) \<Rightarrow>
          Some (PortProtocolHTTP2, HTTPRouteMatch.Port (HTTPRoute.Match h))
      | (None, None, None, Some h) \<Rightarrow>
          Some (PortProtocolHTTP, HTTPRouteMatch.Port (HTTPRoute.Match h))
      | _ \<Rightarrow> None)"

text \<open>The ports declared by the variants present on a route, whatever their number.\<close>

definition declared_ports :: "'a Route_scheme \<Rightarrow> int64 list" where
  "declared_ports route =
     (case TCPRoute route of None \<Rightarrow> []
      | Some t \<Rightarrow> (case TCPRoute.Match t of None \<Rightarrow> []
          | Some mt \<Rightarrow> (case TCPRouteMatch.Port mt of None \<Rightarrow> [] | Some p \<Rightarrow> [p])))
     @ (case GRPCRoute route of None \<Rightarrow> []
        | Some g \<Rightarrow> (case GRPCRouteMatch.Port (GRPCRoute.Match g) of None \<Rightarrow> [] | Some p \<Rightarrow> [p]))
     @ (case HTTP2Route route of None \<Rightarrow> []
        | Some h \<Rightarrow> (case HTTPRouteMatch.Port (HTTPRoute.Match h) of None \<Rightarrow> [] | Some p \<Rightarrow> [p]))
     @ (case HTTPRoute route of None \<Rightarrow> []
        | Some h \<Rightarrow> (case HTTPRouteMatch.Port (HTTPRoute.Match h) of None \<Rightarrow> [] | Some p \<Rightarrow> [p]))"

text \<open>The disjunction of the four conditions: the chain inserts the name when one holds.\<close>

definition port_protocol_mismatch :: "'a Route_scheme \<Rightarrow> (int64 \<rightharpoonup> PortProtocol) \<Rightarrow> bool" where
  "port_protocol_mismatch route sdkListenerByPort =
     (tcp_mismatch route sdkListenerByPort \<or> grpc_mismatch route sdkListenerByPort
      \<or> http2_mismatch route sdkListenerByPort \<or> http_mismatch route sdkListenerByPort)"

text \<open>
  The names the detector is meant to return, in the spec's words: the observed names
  with no desired counterpart, and the matched names whose desired route fails the
  port/protocol check. Lemma \<open>tainted_names\<close> shows that the source returns them.
\<close>

definition tainted_name_set ::
  "'a Route_scheme list \<Rightarrow> VirtualRouterData \<Rightarrow> RouteRef list \<Rightarrow> string set" where
  "tainted_name_set routes sdkVR refs =
     (ref_name ` set refs - Name ` set routes)
     \<union> {n \<in> ref_name ` set refs.
          \<exists>r. build_routeByName routes n = Some r
            \<and> port_protocol_mismatch r
                 (build_sdkListenerByPort (Listeners (VirtualRouterData.Spec sdkVR)))}"

section \<open>The remote client and the manager\<close>

subsection \<open>Errors\<close>

text \<open>
  A Go \<^verbatim>\<open>error\<close> value: an \<^verbatim>\<open>awserr.Error\<close> with its code and message, an error that
  wraps another one (it has an \<^verbatim>\<open>Unwrap\<close> method), or a plain error with a message
  (what \<^verbatim>\<open>errors.Errorf\<close> builds, and any other failure).
\<close>

datatype error =
    AWSError string string
  | WrappedError string error
  | PlainError string

text \<open>The type assertion \<^verbatim>\<open>err.(awserr.Error)\<close> followed by \<^verbatim>\<open>Code()\<close>: no unwrapping.\<close>

fun awserr_code :: "error \<Rightarrow> string option" where
  "awserr_code (AWSError code msg) = Some code"
| "awserr_code (WrappedError msg e) = None"
| "awserr_code (PlainError msg) = None"

text \<open>\<^verbatim>\<open>errors.As(err, &awsErr)\<close> followed by \<^verbatim>\<open>Code()\<close>: the first match down the chain.\<close>

fun errors_As_code :: "error \<Rightarrow> string option" where
  "errors_As_code (AWSError code msg) = Some code"
| "errors_As_code (WrappedError msg e) = errors_As_code e"
| "errors_As_code (PlainError msg) = None"

definition route_not_found :: "string option \<Rightarrow> error" where
  "route_not_found routeName = PlainError (''route not found: '' @ StringValue routeName)"

subsection \<open>Resources and the inputs of the remote calls\<close>

record MeshSpec =
  AWSName :: "string option"
  MeshOwner :: "string option"

record Mesh =
  Spec :: MeshSpec

record 'a VirtualRouterSpec =
  AWSName :: "string option"
  Routes :: "'a Route_scheme list"

record 'a VirtualRouter =
  Spec :: "'a VirtualRouterSpec"

record ResourceMetadata =
  MeshOwner :: "string option"

record 'spec RouteData =
  MeshName :: "string option"
  Metadata :: ResourceMetadata
  RouteName :: "string option"
  Spec :: "'spec option"
  VirtualRouterName :: "string option"

record ListRoutesInput =
  MeshName :: "string option"
  MeshOwner :: "string option"
  VirtualRouterName :: "string option"

record DescribeRouteInput =
  MeshName :: "string option"
  MeshOwner :: "string option"
  VirtualRouterName :: "string option"
  RouteName :: "string option"

record 'spec CreateRouteInput =
  MeshName :: "string option"
  MeshOwner :: "string option"
  VirtualRouterName :: "string option"
  RouteName :: "string option"
  Spec :: "'spec option"

record 'spec UpdateRouteInput =
  MeshName :: "string option"
  MeshOwner :: "string option"
  VirtualRouterName :: "string option"
  RouteName :: "string option"
  Spec :: "'spec option"

record DeleteRouteInput =
  MeshName :: "string option"
  MeshOwner :: "string option"
  VirtualRouterName :: "string option"
  RouteName :: "string option"

subsection \<open>The client, the manager and the state\<close>

text \<open>
  \<^verbatim>\<open>services.AppMesh\<close> is an opaque boundary: each operation is a function of its
  input and of the state \<open>'w\<close> of the remote side, returning its answer and the next
  state. \<^verbatim>\<open>Inl\<close> is the call's error; \<^verbatim>\<open>Inr\<close> carries the \<^verbatim>\<open>Route\<close> pointer of the
  response. The paginated listing returns the pages it handed to the callback (which
  always asks for the next page) and the error it ended with, if any.
\<close>

record ('w, 'spec) AppMesh =
  ListRoutesPagesWithContext ::
    "ListRoutesInput \<Rightarrow> 'w \<Rightarrow> (RouteRef list list \<times> error option) \<times> 'w"
  DescribeRouteWithContext ::
    "DescribeRouteInput \<Rightarrow> 'w \<Rightarrow> (error + 'spec RouteData option) \<times> 'w"
  CreateRouteWithContext ::
    "'spec CreateRouteInput \<Rightarrow> 'w \<Rightarrow> (error + 'spec RouteData option) \<times> 'w"
  UpdateRouteWithContext ::
    "'spec UpdateRouteInput \<Rightarrow> 'w \<Rightarrow> (error + 'spec RouteData option) \<times> 'w"
  DeleteRouteWithContext ::
    "DeleteRouteInput \<Rightarrow> 'w \<Rightarrow> error option \<times> 'w"

text \<open>
  The manager holds the client. Two functions that the file calls but does not define
  are parameters, kept beside it: \<open>Convert\<close> is \<^verbatim>\<open>converter.Convert\<close> with the two
  conversion functions that \<^verbatim>\<open>BuildSDKRouteSpec\<close> registers (packages conversions and
  references), and \<open>cmp_Equal\<close> is \<^verbatim>\<open>cmp.Equal\<close> under \<^verbatim>\<open>cmpopts.EquateEmpty()\<close> on two
  \<^verbatim>\<open>*RouteSpec\<close>. The logger has no effect on results and is left out. \<open>'vn\<close> is the
  type of the virtual-node table; \<open>None\<close> is the nil map.
\<close>

record ('w, 'spec, 'a, 'vn) defaultRoutesManager =
  appMeshSDK :: "('w, 'spec) AppMesh"
  Convert :: "'a VirtualRouter \<Rightarrow> 'a Route_scheme \<Rightarrow> 'vn option \<Rightarrow> error + 'spec"
  cmp_Equal :: "'spec option \<Rightarrow> 'spec option \<Rightarrow> bool"

text \<open>
  The log of the remote calls made so far, each with its answer, is ghost state: the
  source keeps no such log; it is what the statements about issued calls speak of.
\<close>

datatype 'spec event =
    EvList ListRoutesInput "RouteRef list list" "error option"
  | EvDescribe DescribeRouteInput "error + 'spec RouteData option"
  | EvCreate "'spec CreateRouteInput" "error + 'spec RouteData option"
  | EvUpdate "'spec UpdateRouteInput" "error + 'spec RouteData option"
  | EvDelete DeleteRouteInput "error option"

record ('w, 'spec) state =
  world :: 'w
  events :: "'spec event list"

definition call_ListRoutesPages ::
  "('w, 'spec, 'a, 'vn) defaultRoutesManager \<Rightarrow> ListRoutesInput \<Rightarrow> ('w, 'spec) state
     \<Rightarrow> (RouteRef list list \<times> error option) \<times> ('w, 'spec) state" where
  "call_ListRoutesPages m input st =
     (case ListRoutesPagesWithContext (appMeshSDK m) input (world st) of
        ((pages, err), w) \<Rightarrow>
          ((pages, err), \<lparr>world = w, events = events st @ [EvList input pages err]\<rparr>))"




definition call_DeleteRoute ::
  "('w, 'spec, 'a, 'vn) defaultRoutesManager \<Rightarrow> DeleteRouteInput \<Rightarrow> ('w, 'spec) state
     \<Rightarrow> error option \<times> ('w, 'spec) state" where
  "call_DeleteRoute m input st =
     (case DeleteRouteWithContext (appMeshSDK m) input (world st) of
        (err, w) \<Rightarrow> (err, \<lparr>world = w, events = events st @ [EvDelete input err]\<rparr>))"

section \<open>The operations of the manager\<close>


definition listSDKRouteRefs ::
  "('w, 'spec, 'a, 'vn) defaultRoutesManager \<Rightarrow> Mesh \<Rightarrow> 'a VirtualRouter \<Rightarrow> ('w, 'spec) state
     \<Rightarrow> (RouteRef list \<times> error option) \<times> ('w, 'spec) state" where
  "listSDKRouteRefs m ms vr st =
     (case call_ListRoutesPages m
             \<lparr>ListRoutesInput.MeshName = MeshSpec.AWSName (Mesh.Spec ms),
              ListRoutesInput.MeshOwner = MeshSpec.MeshOwner (Mesh.Spec ms),
              ListRoutesInput.VirtualRouterName = VirtualRouterSpec.AWSName (VirtualRouter.Spec vr)\<rparr>
             st of
        ((pages, Some err), st') \<Rightarrow> (([], Some err), st')
      | ((pages, None), st') \<Rightarrow> ((concat pages, None), st'))"





definition deleteSDKRouteByRef ::
  "('w, 'spec, 'a, 'vn) defaultRoutesManager \<Rightarrow> RouteRef \<Rightarrow> ('w, 'spec) state
     \<Rightarrow> error option \<times> ('w, 'spec) state" where
  "deleteSDKRouteByRef m sdkRouteRef st =
     (case call_DeleteRoute m
             \<lparr>DeleteRouteInput.MeshName = RouteRef.MeshName sdkRouteRef,
              DeleteRouteInput.MeshOwner = RouteRef.MeshOwner sdkRouteRef,
              DeleteRouteInput.VirtualRouterName = RouteRef.VirtualRouterName sdkRouteRef,
              DeleteRouteInput.RouteName = RouteRef.RouteName sdkRouteRef\<rparr>
             st of
        (Some err, st') \<Rightarrow>
          if errors_As_code err = Some ''NotFoundException'' then (None, st')
          else (Some err, st')
      | (None, st') \<Rightarrow> (None, st'))"

subsection \<open>reconcile\<close>





subsection \<open>create, remove, update, cleanup\<close>


fun remove_loop ::
  "('w, 'spec, 'a, 'vn) defaultRoutesManager \<Rightarrow> RouteRef list \<Rightarrow> ('w, 'spec) state
     \<Rightarrow> error option \<times> ('w, 'spec) state" where
  "remove_loop m [] st = (None, st)"
| "remove_loop m (sdkRouteRef # taintedRefs) st =
     (case deleteSDKRouteByRef m sdkRouteRef st of
        (Some err, st') \<Rightarrow> (Some err, st')
      | (None, st') \<Rightarrow> remove_loop m taintedRefs st')"

definition remove ::
  "('w, 'spec, 'a, 'vn) defaultRoutesManager \<Rightarrow> Mesh \<Rightarrow> VirtualRouterData \<Rightarrow> 'a VirtualRouter
     \<Rightarrow> ('w, 'spec) state \<Rightarrow> error option \<times> ('w, 'spec) state" where
  "remove m ms sdkVR vr st =
     (case listSDKRouteRefs m ms vr st of
        ((sdkRouteRefs, Some err), st') \<Rightarrow> (Some err, st')
      | ((sdkRouteRefs, None), st') \<Rightarrow>
          remove_loop m
            (taintedSDKRouteRefs (Routes (VirtualRouter.Spec vr)) sdkVR sdkRouteRefs) st')"



section \<open>Vocabulary for statements about the calls\<close>






definition delete_input_by_ref :: "RouteRef \<Rightarrow> DeleteRouteInput" where
  "delete_input_by_ref sdkRouteRef =
     \<lparr>DeleteRouteInput.MeshName = RouteRef.MeshName sdkRouteRef,
      DeleteRouteInput.MeshOwner = RouteRef.MeshOwner sdkRouteRef,
      DeleteRouteInput.VirtualRouterName = RouteRef.VirtualRouterName sdkRouteRef,
      DeleteRouteInput.RouteName = RouteRef.RouteName sdkRouteRef\<rparr>"

text \<open>
  What \<^verbatim>\<open>reconcile\<close> (and the listing in front of it) does on the answer of a call:
  \<open>Some e\<close> when it returns at once with the error \<open>e\<close>, \<open>None\<close> when it goes on.
  A describe that reports the route missing, by a NotFound error or by a nil route,
  stops it with the error built by \<^verbatim>\<open>errors.Errorf\<close>.
\<close>

fun reconcile_stop :: "'spec event \<Rightarrow> error option" where
  "reconcile_stop (EvList input pages err) = err"
| "reconcile_stop (EvDescribe input (Inl err)) =
     (if awserr_code err = Some ''NotFoundException''
      then Some (route_not_found (DescribeRouteInput.RouteName input)) else Some err)"
| "reconcile_stop (EvDescribe input (Inr None)) =
     Some (route_not_found (DescribeRouteInput.RouteName input))"
| "reconcile_stop (EvDescribe input (Inr (Some sdkRoute))) = None"
| "reconcile_stop (EvCreate input (Inl err)) = Some err"
| "reconcile_stop (EvCreate input (Inr sdkRoute)) = None"
| "reconcile_stop (EvUpdate input (Inl err)) = Some err"
| "reconcile_stop (EvUpdate input (Inr sdkRoute)) = None"
| "reconcile_stop (EvDelete input err) = err"

text \<open>
  The shapes of the log of one pass. \<open>stopped_by_call evs e\<close>: the last call of the pass
  is the one that failed, with \<open>e\<close>, and no call before it failed. \<open>stopped_by_build\<close>:
  no call failed and the spec builder gave \<open>e\<close> on one of the routes. A pass that
  returns no error has a log in which every call lets it go on.
\<close>

definition all_go_on :: "'spec event list \<Rightarrow> bool" where
  "all_go_on evs = list_all (\<lambda>ev. reconcile_stop ev = None) evs"






section \<open>Example inputs\<close>

text \<open>Concrete routes, refs and listeners on which the theorems below are exercised.\<close>

definition plain_route :: "string \<Rightarrow> Route" where
  "plain_route n =
     \<lparr>Name = n, GRPCRoute = None, HTTPRoute = None, HTTP2Route = None, TCPRoute = None\<rparr>"

definition plain_ref :: "string \<Rightarrow> RouteRef" where
  "plain_ref n =
     \<lparr>RouteRef.MeshName = Some ''mesh'', RouteRef.MeshOwner = None,
      RouteRef.RouteName = Some n, RouteRef.VirtualRouterName = Some ''vr''\<rparr>"

definition http_route :: "string \<Rightarrow> int64 option \<Rightarrow> Route" where
  "http_route n p =
     \<lparr>Name = n, GRPCRoute = None,
      HTTPRoute = Some \<lparr>HTTPRoute.Match = \<lparr>HTTPRouteMatch.Port = p\<rparr>\<rparr>,
      HTTP2Route = None, TCPRoute = None\<rparr>"

definition tcp_route :: "string \<Rightarrow> int64 option \<Rightarrow> Route" where
  "tcp_route n p =
     \<lparr>Name = n, GRPCRoute = None, HTTPRoute = None, HTTP2Route = None,
      TCPRoute = Some \<lparr>TCPRoute.Match = Some \<lparr>TCPRouteMatch.Port = p\<rparr>\<rparr>\<rparr>"

definition router_with :: "(int64 \<times> string) list \<Rightarrow> VirtualRouterData" where
  "router_with ls =
     \<lparr>VirtualRouterData.Spec =
        \<lparr>Listeners = map (\<lambda>(p, proto).
            \<lparr>PortMapping = \<lparr>PortMapping.Port = Some p, Protocol = Some proto\<rparr>\<rparr>) ls\<rparr>\<rparr>"

text \<open>
  A small instance of the parameters: a spec that is just an optional list of retry
  events (\<open>None\<close> is the nil slice), compared as \<^verbatim>\<open>cmpopts.EquateEmpty\<close> compares a
  slice, a builder that fails on the route named bad, a client that keeps the routes in
  a list, and a client whose listing is stale: it lists a route that every later call
  reports missing.
\<close>

type_synonym toy_spec = "string list option"

definition toy_cmp_Equal :: "toy_spec option \<Rightarrow> toy_spec option \<Rightarrow> bool" where
  "toy_cmp_Equal a b =
     (case (a, b) of
        (None, None) \<Rightarrow> True
      | (Some x, Some y) \<Rightarrow>
          (case x of None \<Rightarrow> [] | Some l \<Rightarrow> l) = (case y of None \<Rightarrow> [] | Some l \<Rightarrow> l)
      | _ \<Rightarrow> False)"

definition toy_convert :: "unit VirtualRouter \<Rightarrow> Route \<Rightarrow> unit option \<Rightarrow> error + toy_spec" where
  "toy_convert vr route vnByKey =
     (if Name route = ''bad'' then Inl (PlainError ''no such virtual node'')
      else Inr (Some []))"

definition not_found :: error where
  "not_found = AWSError ''NotFoundException'' ''route does not exist''"

definition ref_of_record :: "'spec RouteData \<Rightarrow> RouteRef" where
  "ref_of_record r =
     \<lparr>RouteRef.MeshName = RouteData.MeshName r,
      RouteRef.MeshOwner = ResourceMetadata.MeshOwner (Metadata r),
      RouteRef.RouteName = RouteData.RouteName r,
      RouteRef.VirtualRouterName = RouteData.VirtualRouterName r\<rparr>"

definition store_client :: "((string \<times> toy_spec RouteData) list, toy_spec) AppMesh" where
  "store_client =
     \<lparr>ListRoutesPagesWithContext = (\<lambda>input w. (([map (\<lambda>(n, r). ref_of_record r) w], None), w)),
      DescribeRouteWithContext = (\<lambda>input w.
        (case map_of w (StringValue (DescribeRouteInput.RouteName input)) of
           None \<Rightarrow> Inl not_found
         | Some r \<Rightarrow> Inr (Some r), w)),
      CreateRouteWithContext = (\<lambda>input w.
        (let r = \<lparr>RouteData.MeshName = CreateRouteInput.MeshName input,
                  Metadata = \<lparr>ResourceMetadata.MeshOwner = CreateRouteInput.MeshOwner input\<rparr>,
                  RouteData.RouteName = CreateRouteInput.RouteName input,
                  RouteData.Spec = CreateRouteInput.Spec input,
                  RouteData.VirtualRouterName = CreateRouteInput.VirtualRouterName input\<rparr>
         in (Inr (Some r), w @ [(StringValue (CreateRouteInput.RouteName input), r)]))),
      UpdateRouteWithContext = (\<lambda>input w.
        (case map_of w (StringValue (UpdateRouteInput.RouteName input)) of
           None \<Rightarrow> (Inl not_found, w)
         | Some old \<Rightarrow>
             (let r = old\<lparr>RouteData.Spec := UpdateRouteInput.Spec input\<rparr>
              in (Inr (Some r),
                  map (\<lambda>(n, x). if n = StringValue (UpdateRouteInput.RouteName input)
                                 then (n, r) else (n, x)) w)))),
      DeleteRouteWithContext = (\<lambda>input w.
        (case map_of w (StringValue (DeleteRouteInput.RouteName input)) of
           None \<Rightarrow> (Some not_found, w)
         | Some old \<Rightarrow>
             (None, filter (\<lambda>(n, x). n \<noteq> StringValue (DeleteRouteInput.RouteName input)) w)))\<rparr>"

definition store_manager ::
  "((string \<times> toy_spec RouteData) list, toy_spec, unit, unit) defaultRoutesManager" where
  "store_manager =
     \<lparr>appMeshSDK = store_client, Convert = toy_convert, cmp_Equal = toy_cmp_Equal\<rparr>"

definition stale_client :: "(unit, toy_spec) AppMesh" where
  "stale_client =
     \<lparr>ListRoutesPagesWithContext = (\<lambda>input w. (([[plain_ref ''r1'']], None), w)),
      DescribeRouteWithContext = (\<lambda>input w. (Inl not_found, w)),
      CreateRouteWithContext = (\<lambda>input w. (Inl (PlainError ''unavailable''), w)),
      UpdateRouteWithContext = (\<lambda>input w. (Inl (PlainError ''unavailable''), w)),
      DeleteRouteWithContext = (\<lambda>input w.
        (Some (WrappedError ''delete route'' not_found), w))\<rparr>"

definition stale_manager :: "(unit, toy_spec, unit, unit) defaultRoutesManager" where
  "stale_manager =
     \<lparr>appMeshSDK = stale_client, Convert = toy_convert, cmp_Equal = toy_cmp_Equal\<rparr>"




section \<open>Facts about the name maps\<close>

lemma fold_upd_dom:
  "dom (fold (\<lambda>x m. m(k x \<mapsto> x)) xs m0) = dom m0 \<union> k ` set xs"
  by (induction xs arbitrary: m0) auto

lemma fold_upd_key:
  "fold (\<lambda>x m. m(k x \<mapsto> x)) xs m0 n = Some v \<Longrightarrow> (m0 n = Some v \<or> (v \<in> set xs \<and> k v = n))"
proof (induction xs arbitrary: m0)
  case Nil
  then show ?case by simp
next
  case (Cons a xs)
  from Cons.prems have "fold (\<lambda>x m. m(k x \<mapsto> x)) xs (m0(k a \<mapsto> a)) n = Some v"
    by (simp only: fold.simps o_apply)
  from Cons.IH [OF this] show ?case
    by (cases "k a = n") auto
qed

lemma routeByName_dom: "dom (build_routeByName routes) = Name ` set routes"
  by (simp add: build_routeByName_def fold_upd_dom)

lemma routeByName_Some:
  "build_routeByName routes n = Some r \<Longrightarrow> r \<in> set routes \<and> Name r = n"
  using fold_upd_key [of Name routes Map.empty n r]
  by (simp add: build_routeByName_def)

lemma sdkRouteRefByName_dom: "dom (build_sdkRouteRefByName refs) = ref_name ` set refs"
  using fold_upd_dom [of "\<lambda>r. StringValue (RouteRef.RouteName r)" refs Map.empty]
  by (simp add: build_sdkRouteRefByName_def ref_name_def [abs_def])

lemma sdkRouteRefByName_Some:
  "build_sdkRouteRefByName refs n = Some r \<Longrightarrow> r \<in> set refs \<and> ref_name r = n"
  using fold_upd_key [of "\<lambda>r. StringValue (RouteRef.RouteName r)" refs Map.empty n r]
  by (simp add: build_sdkRouteRefByName_def ref_name_def)

lemma finite_routeByName_dom [simp]: "finite (dom (build_routeByName routes))"
  by (simp add: routeByName_dom)

lemma finite_sdkRouteRefByName_dom [simp]: "finite (dom (build_sdkRouteRefByName refs))"
  by (simp add: sdkRouteRefByName_dom)

lemma set_List_sorted: "finite s \<Longrightarrow> set (List_sorted s) = s"
  by (simp add: List_sorted_def)

lemma set_index_all: "set (index_all m names) = {v. \<exists>n \<in> set names. m n = Some v}"
  by (force simp: index_all_def map_filter_def)

lemma index_all_keys:
  "set names \<subseteq> dom m \<Longrightarrow> index_all m names = map (\<lambda>n. the (m n)) names"
  by (induction names) (auto simp: index_all_def)

section \<open>The matcher partitions the names\<close>

lemma set_matched:
  "set (fst (matchRoutesAgainstSDKRouteRefs routes refs))
     = {\<lparr>pair_route = r, pair_sdkRouteRef = ref\<rparr> | r ref n.
          build_routeByName routes n = Some r \<and> build_sdkRouteRefByName refs n = Some ref}"
proof -
  have fin: "finite (dom (build_routeByName routes) \<inter> dom (build_sdkRouteRefByName refs))"
    by simp
  show ?thesis
    unfolding matchRoutesAgainstSDKRouteRefs_def Let_def StringKeySet_def fst_conv
      map_filter_def set_map set_filter set_List_sorted [OF fin]
    by (auto split: option.splits) force
qed

lemma set_unmatchedRoutes:
  "set (fst (snd (matchRoutesAgainstSDKRouteRefs routes refs)))
     = {r. \<exists>n. build_routeByName routes n = Some r \<and> n \<notin> dom (build_sdkRouteRefByName refs)}"
proof -
  have fin: "finite (dom (build_routeByName routes) - dom (build_sdkRouteRefByName refs))"
    by simp
  show ?thesis
    unfolding matchRoutesAgainstSDKRouteRefs_def Let_def StringKeySet_def fst_conv snd_conv
      set_index_all set_List_sorted [OF fin]
    by auto
qed

lemma set_unmatchedRefs:
  "set (snd (snd (matchRoutesAgainstSDKRouteRefs routes refs)))
     = {r. \<exists>n. build_sdkRouteRefByName refs n = Some r \<and> n \<notin> dom (build_routeByName routes)}"
proof -
  have fin: "finite (dom (build_sdkRouteRefByName refs) - dom (build_routeByName routes))"
    by simp
  show ?thesis
    unfolding matchRoutesAgainstSDKRouteRefs_def Let_def StringKeySet_def fst_conv snd_conv
      set_index_all set_List_sorted [OF fin]
    by auto
qed

lemma names_matched:
  "(\<lambda>p. Name (pair_route p)) ` set (fst (matchRoutesAgainstSDKRouteRefs routes refs))
     = Name ` set routes \<inter> ref_name ` set refs" (is "?L = ?R")
proof (rule set_eqI)
  fix n
  show "n \<in> ?L \<longleftrightarrow> n \<in> ?R"
  proof
    assume "n \<in> ?L"
    then obtain r ref k where k: "build_routeByName routes k = Some r"
        "build_sdkRouteRefByName refs k = Some ref" and n: "n = Name r"
      unfolding set_matched by auto
    from routeByName_Some [OF k(1)] have a: "r \<in> set routes" "Name r = k" by simp_all
    from sdkRouteRefByName_Some [OF k(2)] have b: "ref \<in> set refs" "ref_name ref = k"
      by simp_all
    have "Name r \<in> Name ` set routes" using a(1) by (rule imageI)
    moreover have "ref_name ref \<in> ref_name ` set refs" using b(1) by (rule imageI)
    ultimately show "n \<in> ?R" using a(2) b(2) n by simp
  next
    assume "n \<in> ?R"
    then have "n \<in> dom (build_routeByName routes)" "n \<in> dom (build_sdkRouteRefByName refs)"
      by (simp_all add: routeByName_dom sdkRouteRefByName_dom)
    then obtain r ref where k: "build_routeByName routes n = Some r"
        "build_sdkRouteRefByName refs n = Some ref"
      by auto
    from routeByName_Some [OF k(1)] have "Name r = n" by simp
    moreover have "\<lparr>pair_route = r, pair_sdkRouteRef = ref\<rparr>
        \<in> set (fst (matchRoutesAgainstSDKRouteRefs routes refs))"
      unfolding set_matched using k by blast
    ultimately show "n \<in> ?L" by force
  qed
qed


lemma names_unmatchedRoutes:
  "Name ` set (fst (snd (matchRoutesAgainstSDKRouteRefs routes refs)))
     = Name ` set routes - ref_name ` set refs" (is "?L = ?R")
proof (rule set_eqI)
  fix n
  show "n \<in> ?L \<longleftrightarrow> n \<in> ?R"
  proof
    assume "n \<in> ?L"
    then obtain r k where k: "build_routeByName routes k = Some r"
        "k \<notin> dom (build_sdkRouteRefByName refs)" and n: "n = Name r"
      unfolding set_unmatchedRoutes by auto
    from routeByName_Some [OF k(1)] have a: "r \<in> set routes" "Name r = k" by simp_all
    have "Name r \<in> Name ` set routes" using a(1) by (rule imageI)
    then show "n \<in> ?R" using a(2) k(2) n by (simp add: sdkRouteRefByName_dom)
  next
    assume "n \<in> ?R"
    then have d: "n \<in> dom (build_routeByName routes)" "n \<notin> dom (build_sdkRouteRefByName refs)"
      by (simp_all add: routeByName_dom sdkRouteRefByName_dom)
    then obtain r where k: "build_routeByName routes n = Some r" by auto
    from routeByName_Some [OF k] have "Name r = n" by simp
    moreover have "r \<in> set (fst (snd (matchRoutesAgainstSDKRouteRefs routes refs)))"
      unfolding set_unmatchedRoutes using k d(2) by blast
    ultimately show "n \<in> ?L" by force
  qed
qed

lemma names_unmatchedRefs:
  "ref_name ` set (snd (snd (matchRoutesAgainstSDKRouteRefs routes refs)))
     = ref_name ` set refs - Name ` set routes" (is "?L = ?R")
proof (rule set_eqI)
  fix n
  show "n \<in> ?L \<longleftrightarrow> n \<in> ?R"
  proof
    assume "n \<in> ?L"
    then obtain r k where k: "build_sdkRouteRefByName refs k = Some r"
        "k \<notin> dom (build_routeByName routes)" and n: "n = ref_name r"
      unfolding set_unmatchedRefs by auto
    from sdkRouteRefByName_Some [OF k(1)] have a: "r \<in> set refs" "ref_name r = k" by simp_all
    have "ref_name r \<in> ref_name ` set refs" using a(1) by (rule imageI)
    then show "n \<in> ?R" using a(2) k(2) n by (simp add: routeByName_dom)
  next
    assume "n \<in> ?R"
    then have d: "n \<in> dom (build_sdkRouteRefByName refs)" "n \<notin> dom (build_routeByName routes)"
      by (simp_all add: routeByName_dom sdkRouteRefByName_dom)
    then obtain r where k: "build_sdkRouteRefByName refs n = Some r" by auto
    from sdkRouteRefByName_Some [OF k] have "ref_name r = n" by simp
    moreover have "r \<in> set (snd (snd (matchRoutesAgainstSDKRouteRefs routes refs)))"
      unfolding set_unmatchedRefs using k d(2) by blast
    ultimately show "n \<in> ?L" by force
  qed
qed

lemma matched_pair_same_name:
  "p \<in> set (fst (matchRoutesAgainstSDKRouteRefs routes refs)) \<Longrightarrow>
     pair_route p \<in> set routes \<and> pair_sdkRouteRef p \<in> set refs
       \<and> Name (pair_route p) = ref_name (pair_sdkRouteRef p)"
proof -
  assume "p \<in> set (fst (matchRoutesAgainstSDKRouteRefs routes refs))"
  then obtain r ref k where k: "build_routeByName routes k = Some r"
      "build_sdkRouteRefByName refs k = Some ref"
      and p: "p = \<lparr>pair_route = r, pair_sdkRouteRef = ref\<rparr>"
    unfolding set_matched by auto
  from routeByName_Some [OF k(1)] sdkRouteRefByName_Some [OF k(2)] p
  show ?thesis by simp
qed

lemmas match_eval =
  matchRoutesAgainstSDKRouteRefs_def build_routeByName_def build_sdkRouteRefByName_def
  StringKeySet_def List_sorted_def index_all_def Let_def StringValue_def ref_name_def
  insert_Diff_if

lemma match_example:
  "matchRoutesAgainstSDKRouteRefs [plain_route ''b'', plain_route ''a''] [plain_ref ''c'', plain_ref ''b'']
     = ([\<lparr>pair_route = plain_route ''b'', pair_sdkRouteRef = plain_ref ''b''\<rparr>],
        [plain_route ''a''], [plain_ref ''c''])"
  by (simp add: match_eval plain_route_def plain_ref_def)

text \<open>
  Claim C1. For all desired routes and all observed refs, the three outputs of
  \<^verbatim>\<open>matchRoutesAgainstSDKRouteRefs\<close> are pairwise disjoint by name, their names together
  are exactly the desired names and the observed names, and every matched pair is a
  desired route with an observed ref of the same name.
\<close>

theorem match_partition:
  "matchRoutesAgainstSDKRouteRefs routes sdkRouteRefs = (matched, unmatchedRoutes, unmatchedSDKRouteRefs)
   \<Longrightarrow>
     (\<lambda>p. Name (pair_route p)) ` set matched \<inter> Name ` set unmatchedRoutes = {}
   \<and> (\<lambda>p. Name (pair_route p)) ` set matched \<inter> ref_name ` set unmatchedSDKRouteRefs = {}
   \<and> Name ` set unmatchedRoutes \<inter> ref_name ` set unmatchedSDKRouteRefs = {}
   \<and> (\<lambda>p. Name (pair_route p)) ` set matched \<union> Name ` set unmatchedRoutes
         \<union> ref_name ` set unmatchedSDKRouteRefs
       = Name ` set routes \<union> ref_name ` set sdkRouteRefs
   \<and> (\<forall>p \<in> set matched.
         pair_route p \<in> set routes \<and> pair_sdkRouteRef p \<in> set sdkRouteRefs
         \<and> Name (pair_route p) = ref_name (pair_sdkRouteRef p))"
proof -
  assume eq: "matchRoutesAgainstSDKRouteRefs routes sdkRouteRefs
                = (matched, unmatchedRoutes, unmatchedSDKRouteRefs)"
  have m: "(\<lambda>p. Name (pair_route p)) ` set matched
             = Name ` set routes \<inter> ref_name ` set sdkRouteRefs"
    using names_matched [of routes sdkRouteRefs] by (simp add: eq)
  have u: "Name ` set unmatchedRoutes = Name ` set routes - ref_name ` set sdkRouteRefs"
    using names_unmatchedRoutes [of routes sdkRouteRefs] by (simp add: eq)
  have r: "ref_name ` set unmatchedSDKRouteRefs
             = ref_name ` set sdkRouteRefs - Name ` set routes"
    using names_unmatchedRefs [of routes sdkRouteRefs] by (simp add: eq)
  have s: "\<forall>p \<in> set matched.
         pair_route p \<in> set routes \<and> pair_sdkRouteRef p \<in> set sdkRouteRefs
         \<and> Name (pair_route p) = ref_name (pair_sdkRouteRef p)"
    using matched_pair_same_name [of _ routes sdkRouteRefs] by (simp add: eq)
  have d: "\<And>A B::string set. (A \<inter> B) \<inter> (A - B) = {}" "\<And>A B::string set. (A \<inter> B) \<inter> (B - A) = {}"
    "\<And>A B::string set. (A - B) \<inter> (B - A) = {}"
    "\<And>A B::string set. (A \<inter> B) \<union> (A - B) \<union> (B - A) = A \<union> B"
    by blast+
  show ?thesis
    unfolding m u r using s d by simp
qed

theorem match_partition_witness:
  "matchRoutesAgainstSDKRouteRefs [plain_route ''b'', plain_route ''a'']
       [plain_ref ''c'', plain_ref ''b'']
     = ([\<lparr>pair_route = plain_route ''b'', pair_sdkRouteRef = plain_ref ''b''\<rparr>],
        [plain_route ''a''], [plain_ref ''c''])
   \<and> (\<lambda>p. Name (pair_route p))
         ` set [\<lparr>pair_route = plain_route ''b'', pair_sdkRouteRef = plain_ref ''b''\<rparr>]
       \<inter> Name ` set [plain_route ''a''] = {}
   \<and> Name (plain_route ''b'') = ref_name (plain_ref ''b'')"
proof -
  note t = match_partition [OF match_example]
  from t have d: "(\<lambda>p. Name (pair_route p))
         ` set [\<lparr>pair_route = plain_route ''b'', pair_sdkRouteRef = plain_ref ''b''\<rparr>]
       \<inter> Name ` set [plain_route ''a''] = {}"
    by (rule conjunct1)
  from t have "\<forall>p \<in> set [\<lparr>pair_route = plain_route ''b'', pair_sdkRouteRef = plain_ref ''b''\<rparr>].
         pair_route p \<in> set [plain_route ''b'', plain_route ''a'']
         \<and> pair_sdkRouteRef p \<in> set [plain_ref ''c'', plain_ref ''b'']
         \<and> Name (pair_route p) = ref_name (pair_sdkRouteRef p)"
    by (elim conjE)
  then have n: "Name (plain_route ''b'') = ref_name (plain_ref ''b'')"
    by simp
  from match_example d n show ?thesis by (intro conjI)
qed

section \<open>The taint detector\<close>

lemma taint_step_eq:
  "taint_step rb ls n S =
     (case rb n of None \<Rightarrow> S
      | Some r \<Rightarrow> if port_protocol_mismatch r ls then insert (Name r) S else S)"
  by (simp add: taint_step_def port_protocol_mismatch_def split: option.splits)

lemma fold_taint_step:
  "fold (taint_step rb ls) L S
     = S \<union> {Name r | r n. n \<in> set L \<and> rb n = Some r \<and> port_protocol_mismatch r ls}"
proof (induction L arbitrary: S)
  case Nil
  then show ?case by simp
next
  case (Cons a L)
  show ?case
  proof (cases "rb a")
    case None
    then show ?thesis
      using Cons.IH [of S] by (auto simp: taint_step_eq)
  next
    case (Some r)
    then show ?thesis
      using Cons.IH [of S] Cons.IH [of "insert (Name r) S"]
      by (auto simp: taint_step_eq)
  qed
qed

lemma tainted_set_eq:
  "fold (taint_step (build_routeByName routes) ls)
      (List_sorted (StringKeySet (build_routeByName routes)
                      \<inter> StringKeySet (build_sdkRouteRefByName refs)))
      (StringKeySet (build_sdkRouteRefByName refs) - StringKeySet (build_routeByName routes))
   = (ref_name ` set refs - Name ` set routes)
     \<union> {n \<in> ref_name ` set refs.
          \<exists>r. build_routeByName routes n = Some r \<and> port_protocol_mismatch r ls}"
  (is "?L = ?R")
proof -
  have fin: "finite (dom (build_routeByName routes) \<inter> dom (build_sdkRouteRefByName refs))"
    by simp
  have "?L = (dom (build_sdkRouteRefByName refs) - dom (build_routeByName routes))
      \<union> {Name r | r n. n \<in> dom (build_routeByName routes) \<inter> dom (build_sdkRouteRefByName refs)
             \<and> build_routeByName routes n = Some r \<and> port_protocol_mismatch r ls}"
    unfolding fold_taint_step StringKeySet_def set_List_sorted [OF fin] ..
  also have "\<dots> = ?R"
  proof -
    have "{Name r | r n. n \<in> dom (build_routeByName routes) \<inter> dom (build_sdkRouteRefByName refs)
             \<and> build_routeByName routes n = Some r \<and> port_protocol_mismatch r ls}
       = {n \<in> ref_name ` set refs.
          \<exists>r. build_routeByName routes n = Some r \<and> port_protocol_mismatch r ls}"
      (is "?A = ?B")
    proof (rule set_eqI)
      fix x
      show "x \<in> ?A \<longleftrightarrow> x \<in> ?B"
      proof
        assume "x \<in> ?A"
        then obtain r n where h: "x = Name r" "n \<in> dom (build_sdkRouteRefByName refs)"
            "build_routeByName routes n = Some r" "port_protocol_mismatch r ls"
          by auto
        from routeByName_Some [OF h(3)] have "Name r = n" by simp
        with h show "x \<in> ?B" by (simp add: sdkRouteRefByName_dom)
      next
        assume "x \<in> ?B"
        then obtain r where h: "x \<in> dom (build_sdkRouteRefByName refs)"
            "build_routeByName routes x = Some r" "port_protocol_mismatch r ls"
          by (auto simp: sdkRouteRefByName_dom)
        from routeByName_Some [OF h(2)] have "Name r = x" by simp
        with h show "x \<in> ?A" by blast
      qed
    qed
    then show ?thesis by (simp add: routeByName_dom sdkRouteRefByName_dom)
  qed
  finally show ?thesis .
qed

lemma names_index_all:
  assumes "finite S" and "S \<subseteq> dom (build_sdkRouteRefByName refs)"
  shows "ref_name ` set (index_all (build_sdkRouteRefByName refs) (List_sorted S)) = S"
proof (rule set_eqI)
  fix n
  show "n \<in> ref_name ` set (index_all (build_sdkRouteRefByName refs) (List_sorted S))
          \<longleftrightarrow> n \<in> S"
  proof
    assume "n \<in> ref_name ` set (index_all (build_sdkRouteRefByName refs) (List_sorted S))"
    then obtain v k where h: "n = ref_name v" "k \<in> S" "build_sdkRouteRefByName refs k = Some v"
      unfolding set_index_all set_List_sorted [OF assms(1)] by auto
    from sdkRouteRefByName_Some [OF h(3)] have "ref_name v = k" by simp
    with h show "n \<in> S" by simp
  next
    assume n: "n \<in> S"
    with assms(2) obtain v where v: "build_sdkRouteRefByName refs n = Some v" by auto
    from sdkRouteRefByName_Some [OF v] have e: "ref_name v = n" by simp
    have "v \<in> set (index_all (build_sdkRouteRefByName refs) (List_sorted S))"
      unfolding set_index_all set_List_sorted [OF assms(1)] using n v by blast
    then have "ref_name v \<in> ref_name ` set (index_all (build_sdkRouteRefByName refs) (List_sorted S))"
      by (rule imageI)
    then show "n \<in> ref_name ` set (index_all (build_sdkRouteRefByName refs) (List_sorted S))"
      by (simp add: e)
  qed
qed

lemma tainted_names:
  "ref_name ` set (taintedSDKRouteRefs routes sdkVR refs) = tainted_name_set routes sdkVR refs"
proof -
  let ?ls = "build_sdkListenerByPort (Listeners (VirtualRouterData.Spec sdkVR))"
  let ?S = "(ref_name ` set refs - Name ` set routes)
     \<union> {n \<in> ref_name ` set refs.
          \<exists>r. build_routeByName routes n = Some r \<and> port_protocol_mismatch r ?ls}"
  have fin: "finite ?S" by simp
  have sub: "?S \<subseteq> dom (build_sdkRouteRefByName refs)"
    by (auto simp: sdkRouteRefByName_dom)
  have "taintedSDKRouteRefs routes sdkVR refs
          = index_all (build_sdkRouteRefByName refs) (List_sorted ?S)"
    unfolding taintedSDKRouteRefs_def Let_def tainted_set_eq ..
  then show ?thesis
    using names_index_all [OF fin sub] by (simp add: tainted_name_set_def)
qed

lemma variant_mismatch:
  "route_variant route = Some (v, Some p) \<Longrightarrow>
     port_protocol_mismatch route ls \<longleftrightarrow> listener_at ls p \<noteq> v"
  by (auto simp: route_variant_def port_protocol_mismatch_def tcp_mismatch_def grpc_mismatch_def
        http2_mismatch_def http_mismatch_def Int64Value_def split: option.splits)

lemma no_port_no_mismatch:
  "declared_ports route = [] \<Longrightarrow> \<not> port_protocol_mismatch route ls"
  by (auto simp: declared_ports_def port_protocol_mismatch_def tcp_mismatch_def grpc_mismatch_def
        http2_mismatch_def http_mismatch_def split: option.splits)

lemma in_set_case_option:
  "p \<in> set (case x of None \<Rightarrow> [] | Some y \<Rightarrow> f y) \<longleftrightarrow> (\<exists>y. x = Some y \<and> p \<in> set (f y))"
  by (cases x) simp_all

lemma in_set_case_option_single:
  "p \<in> set (case x of None \<Rightarrow> [] | Some y \<Rightarrow> [y]) \<longleftrightarrow> x = Some p"
  by (cases x) auto

lemma declared_ports_cases:
  "p \<in> set (declared_ports route) \<Longrightarrow>
     (\<exists>t mt. TCPRoute route = Some t \<and> TCPRoute.Match t = Some mt
         \<and> TCPRouteMatch.Port mt = Some p)
     \<or> (\<exists>g. GRPCRoute route = Some g \<and> GRPCRouteMatch.Port (GRPCRoute.Match g) = Some p)
     \<or> (\<exists>h. HTTP2Route route = Some h \<and> HTTPRouteMatch.Port (HTTPRoute.Match h) = Some p)
     \<or> (\<exists>h. HTTPRoute route = Some h \<and> HTTPRouteMatch.Port (HTTPRoute.Match h) = Some p)"
  unfolding declared_ports_def set_append Un_iff in_set_case_option in_set_case_option_single
  by (elim disjE exE conjE) simp_all

lemma unbound_port_mismatch:
  assumes "p \<in> set (declared_ports route)" and "ls p = None"
  shows "port_protocol_mismatch route ls"
proof -
  have z: "listener_at ls p = []" using assms(2) by (simp add: listener_at_def)
  from declared_ports_cases [OF assms(1)] show ?thesis
  proof (elim disjE exE conjE)
    fix t mt
    assume "TCPRoute route = Some t" "TCPRoute.Match t = Some mt" "TCPRouteMatch.Port mt = Some p"
    then have "tcp_mismatch route ls"
      by (simp add: tcp_mismatch_def Int64Value_def z PortProtocolTCP_def)
    then show ?thesis by (simp add: port_protocol_mismatch_def)
  next
    fix g
    assume "GRPCRoute route = Some g" "GRPCRouteMatch.Port (GRPCRoute.Match g) = Some p"
    then have "grpc_mismatch route ls"
      by (simp add: grpc_mismatch_def Int64Value_def z PortProtocolGRPC_def)
    then show ?thesis by (simp add: port_protocol_mismatch_def)
  next
    fix h
    assume "HTTP2Route route = Some h" "HTTPRouteMatch.Port (HTTPRoute.Match h) = Some p"
    then have "http2_mismatch route ls"
      by (simp add: http2_mismatch_def Int64Value_def z PortProtocolHTTP2_def)
    then show ?thesis by (simp add: port_protocol_mismatch_def)
  next
    fix h
    assume "HTTPRoute route = Some h" "HTTPRouteMatch.Port (HTTPRoute.Match h) = Some p"
    then have "http_mismatch route ls"
      by (simp add: http_mismatch_def Int64Value_def z PortProtocolHTTP_def)
    then show ?thesis by (simp add: port_protocol_mismatch_def)
  qed
qed

lemma matched_tainted_iff:
  assumes "build_routeByName routes n = Some route"
    and "n \<in> ref_name ` set refs"
  shows "n \<in> tainted_name_set routes sdkVR refs \<longleftrightarrow>
           port_protocol_mismatch route
             (build_sdkListenerByPort (Listeners (VirtualRouterData.Spec sdkVR)))"
proof -
  from routeByName_Some [OF assms(1)] have "route \<in> set routes" "Name route = n" by simp_all
  then have "n \<in> Name ` set routes" by auto
  then show ?thesis using assms by (simp add: tainted_name_set_def)
qed

lemma desired_tainted_imp:
  assumes "build_routeByName routes n = Some route"
    and "n \<in> tainted_name_set routes sdkVR refs"
  shows "port_protocol_mismatch route
             (build_sdkListenerByPort (Listeners (VirtualRouterData.Spec sdkVR)))"
proof -
  from routeByName_Some [OF assms(1)] have "route \<in> set routes" "Name route = n" by simp_all
  then have "n \<in> Name ` set routes" by auto
  then show ?thesis using assms by (simp add: tainted_name_set_def)
qed

text \<open>
  Claim C3. A matched route whose single match variant declares port \<open>p\<close> and implies
  protocol \<open>v\<close> is in the result of \<^verbatim>\<open>taintedSDKRouteRefs\<close> when the listener bound
  to \<open>p\<close> has a protocol other than \<open>v\<close>, and is not in it when that listener's
  protocol is \<open>v\<close>.
\<close>

theorem taint_port_protocol:
  assumes "build_routeByName routes n = Some route"
    and "n \<in> ref_name ` set sdkRouteRefs"
    and "route_variant route = Some (v, Some p)"
    and "build_sdkListenerByPort (Listeners (VirtualRouterData.Spec sdkVR)) p = Some proto"
  shows "n \<in> ref_name ` set (taintedSDKRouteRefs routes sdkVR sdkRouteRefs) \<longleftrightarrow> proto \<noteq> v"
  unfolding tainted_names matched_tainted_iff [OF assms(1,2)] variant_mismatch [OF assms(3)]
  using assms(4) by (simp add: listener_at_def)

text \<open>
  Claim C9. A desired route none of whose present variants carries a port (so, in
  particular, a route whose one chosen variant has no port) is never put in the taint
  set, whatever the listeners are.
\<close>

theorem taint_no_port:
  assumes "build_routeByName routes n = Some route"
    and "declared_ports route = []"
  shows "n \<notin> ref_name ` set (taintedSDKRouteRefs routes sdkVR sdkRouteRefs)"
  unfolding tainted_names
  using desired_tainted_imp [OF assms(1)] no_port_no_mismatch [OF assms(2)] by blast

text \<open>
  Claim C10. A matched route that declares a port to which no listener is bound is
  tainted: the lookup gives the empty string, which is none of the four protocols.
\<close>

theorem taint_unbound_port:
  assumes "build_routeByName routes n = Some route"
    and "n \<in> ref_name ` set sdkRouteRefs"
    and "p \<in> set (declared_ports route)"
    and "build_sdkListenerByPort (Listeners (VirtualRouterData.Spec sdkVR)) p = None"
  shows "n \<in> ref_name ` set (taintedSDKRouteRefs routes sdkVR sdkRouteRefs)"
  unfolding tainted_names matched_tainted_iff [OF assms(1,2)]
  by (rule unbound_port_mismatch [OF assms(3)]) (rule assms(4))

lemmas fixture_eval =
  http_route_def tcp_route_def plain_route_def plain_ref_def router_with_def
  build_routeByName_def build_sdkRouteRefByName_def build_sdkListenerByPort_def
  ref_name_def StringValue_def Int64Value_def route_variant_def declared_ports_def
  PortProtocolTCP_def PortProtocolGRPC_def PortProtocolHTTP2_def PortProtocolHTTP_def

theorem taint_port_protocol_witness:
  "''r1'' \<in> ref_name ` set (taintedSDKRouteRefs [http_route ''r1'' (Some 8080)]
      (router_with [(8080, ''tcp'')]) [plain_ref ''r1''])
   \<and> ''r1'' \<notin> ref_name ` set (taintedSDKRouteRefs [http_route ''r1'' (Some 8080)]
      (router_with [(8080, ''http'')]) [plain_ref ''r1''])"
proof -
  have a: "build_routeByName [http_route ''r1'' (Some 8080)] ''r1''
             = Some (http_route ''r1'' (Some 8080))"
    by (simp add: fixture_eval)
  have b: "''r1'' \<in> ref_name ` set [plain_ref ''r1'']"
    by (simp add: fixture_eval)
  have c: "route_variant (http_route ''r1'' (Some 8080)) = Some (''http'', Some 8080)"
    by (simp add: fixture_eval)
  have d: "build_sdkListenerByPort
             (Listeners (VirtualRouterData.Spec (router_with [(8080, ''tcp'')]))) 8080
           = Some ''tcp''"
    by (simp add: fixture_eval)
  have e: "build_sdkListenerByPort
             (Listeners (VirtualRouterData.Spec (router_with [(8080, ''http'')]))) 8080
           = Some ''http''"
    by (simp add: fixture_eval)
  show ?thesis
    using taint_port_protocol [OF a b c d] taint_port_protocol [OF a b c e] by simp
qed

theorem taint_no_port_witness:
  "''r1'' \<notin> ref_name ` set (taintedSDKRouteRefs [http_route ''r1'' None]
      (router_with [(8080, ''tcp'')]) [plain_ref ''r1''])"
proof -
  have a: "build_routeByName [http_route ''r1'' None] ''r1'' = Some (http_route ''r1'' None)"
    by (simp add: fixture_eval)
  have b: "declared_ports (http_route ''r1'' None) = []"
    by (simp add: fixture_eval)
  show ?thesis by (rule taint_no_port [OF a b])
qed

theorem taint_unbound_port_witness:
  "''r1'' \<in> ref_name ` set (taintedSDKRouteRefs [tcp_route ''r1'' (Some 443)]
      (router_with [(8080, ''tcp'')]) [plain_ref ''r1''])"
proof -
  have a: "build_routeByName [tcp_route ''r1'' (Some 443)] ''r1''
             = Some (tcp_route ''r1'' (Some 443))"
    by (simp add: fixture_eval)
  have b: "''r1'' \<in> ref_name ` set [plain_ref ''r1'']"
    by (simp add: fixture_eval)
  have c: "443 \<in> set (declared_ports (tcp_route ''r1'' (Some 443)))"
    by (simp add: fixture_eval)
  have d: "build_sdkListenerByPort
             (Listeners (VirtualRouterData.Spec (router_with [(8080, ''tcp'')]))) 443 = None"
    by (simp add: fixture_eval)
  show ?thesis by (rule taint_unbound_port [OF a b c d])
qed

section \<open>The log of a pass\<close>





lemma deleteSDKRouteByRef_events:
  "deleteSDKRouteByRef m sdkRouteRef st = (err, st') \<Longrightarrow>
     (events st' = events st @ [EvDelete (delete_input_by_ref sdkRouteRef) None] \<and> err = None)
     \<or> (\<exists>e. events st' = events st @ [EvDelete (delete_input_by_ref sdkRouteRef) (Some e)]
          \<and> err = (if errors_As_code e = Some ''NotFoundException'' then None else Some e))"
  by (auto simp: deleteSDKRouteByRef_def call_DeleteRoute_def delete_input_by_ref_def
      split: prod.splits option.splits if_splits)


lemma all_go_on_simps [simp]:
  "all_go_on []"
  "all_go_on (ev # evs) \<longleftrightarrow> reconcile_stop ev = None \<and> all_go_on evs"
  "all_go_on (evs @ evs') \<longleftrightarrow> all_go_on evs \<and> all_go_on evs'"
  by (simp_all add: all_go_on_def)












lemma trace_exI:
  "events st' = events st @ evs \<Longrightarrow> P evs \<Longrightarrow> \<exists>evs. events st' = events st @ evs \<and> P evs"
  by blast












section \<open>Runs on the example clients\<close>



lemma stale_delete_by_ref:
  "deleteSDKRouteByRef stale_manager ref st
     = (None,
        \<lparr>world = world st,
         events = events st
           @ [EvDelete (delete_input_by_ref ref) (Some (WrappedError ''delete route'' not_found))]\<rparr>)"
  by (simp add: deleteSDKRouteByRef_def call_DeleteRoute_def stale_manager_def stale_client_def
      delete_input_by_ref_def not_found_def)




lemma match_both:
  "matchRoutesAgainstSDKRouteRefs [plain_route ''r1''] [plain_ref ''r1'']
     = ([\<lparr>pair_route = plain_route ''r1'', pair_sdkRouteRef = plain_ref ''r1''\<rparr>], [], [])"
  by (simp add: match_eval plain_route_def plain_ref_def)







end
